theory Spec2Isabelle
  imports Complex_Main
begin

section \<open>The constellation receiver of gr-digital\<close>

text \<open>
  A shallow embedding of \<^verbatim>\<open>gr-digital/lib/digital_constellation_receiver_cb.cc\<close>:
  the loop-parameter setters, the gain derivation, the phase and frequency tracking step and
  the per-batch work function.

  Numbers: the C++ fields are \<^verbatim>\<open>float\<close>; they are read here as real numbers, and
  \<^verbatim>\<open>gr_complex\<close> as \<^typ>\<open>complex\<close>. Rounding, overflow, infinities and NaN are
  outside the model, so every statement below is about the arithmetic the code writes down,
  carried out exactly: about which branch is taken, which field is written, in which order,
  and how often. The two claims whose truth is decided by single-precision values at an
  end point, or by overflow, are named at the end of the theory and not stated. The loop counter and the item counts are C++ \<^verbatim>\<open>int\<close>; the counter
  only runs from 0 up to an item count, so it never wraps and is read as \<^typ>\<open>int\<close>.
\<close>

subsection \<open>Data\<close>

text \<open>The two exceptions the file throws: \<^verbatim>\<open>std::runtime_error\<close> and
  \<^verbatim>\<open>std::out_of_range\<close>.\<close>

datatype error = Runtime_error | Out_of_range

text \<open>
  The constellation object (\<^verbatim>\<open>digital_constellation_sptr\<close>) is an external
  collaborator. The receiver calls two of its methods: \<^verbatim>\<open>dimensionality()\<close> and
  \<^verbatim>\<open>decision_maker_pe(&sample, &phase_error)\<close>, which returns the symbol value and
  writes the phase error through its second argument. Both are fields here, so that every
  statement holds for any constellation.
\<close>

record constellation =
  dimensionality :: nat
  decision_maker_pe :: "complex \<Rightarrow> nat \<times> real"

text \<open>The data members of \<^verbatim>\<open>digital_constellation_receiver_cb\<close>, under their own names.\<close>

record receiver =
  d_freq :: real
  d_max_freq :: real
  d_min_freq :: real
  d_phase :: real
  d_constellation :: constellation
  d_current_const_point :: nat
  d_damping :: real
  d_loop_bw :: real
  d_alpha :: real
  d_beta :: real

text \<open>\<^verbatim>\<open>#define M_TWOPI (2*M_PI)\<close>: in the code a double-precision constant, here the
  real number it stands for.\<close>

definition M_TWOPI :: real where
  "M_TWOPI = 2 * pi"

subsection \<open>Gain derivation and the validated setters\<close>

text \<open>\<^verbatim>\<open>update_gains\<close>: the denominator first, then the two assignments in turn.
  In single precision the products \<^verbatim>\<open>d_loop_bw*d_loop_bw\<close> and
  \<^verbatim>\<open>4*d_loop_bw*d_loop_bw\<close> overflow once the bandwidth reaches \<open>2\<^sup>6\<^sup>3\<close>; the model has
  no overflow.\<close>

definition denom :: "receiver \<Rightarrow> real" where
  "denom s = 1 + 2 * d_damping s * d_loop_bw s + d_loop_bw s * d_loop_bw s"

definition update_gains :: "receiver \<Rightarrow> receiver" where
  "update_gains s =
     (let dn = denom s;
          s1 = s\<lparr>d_alpha := (4 * d_damping s * d_loop_bw s) / dn\<rparr>;
          s2 = s1\<lparr>d_beta := (4 * d_loop_bw s1 * d_loop_bw s1) / dn\<rparr>
      in s2)"

text \<open>
  A setter that can throw returns the outcome together with the object as it is after the
  call: \<open>Inl e\<close> when the exception \<open>e\<close> left the method, \<open>Inr ()\<close> when the method
  returned. The check comes first in each method, so the object beside \<open>Inl\<close> is the one
  the method was called on.
\<close>

definition set_loop_bandwidth :: "real \<Rightarrow> receiver \<Rightarrow> (error + unit) \<times> receiver" where
  "set_loop_bandwidth bw s =
     (if bw < 0 then (Inl Out_of_range, s)
      else (Inr (), update_gains (s\<lparr>d_loop_bw := bw\<rparr>)))"

definition set_damping_factor :: "real \<Rightarrow> receiver \<Rightarrow> (error + unit) \<times> receiver" where
  "set_damping_factor df s =
     (if df < 0 \<or> df > 1 then (Inl Out_of_range, s)
      else (Inr (), update_gains (s\<lparr>d_damping := df\<rparr>)))"

definition set_alpha :: "real \<Rightarrow> receiver \<Rightarrow> (error + unit) \<times> receiver" where
  "set_alpha alpha s =
     (if alpha < 0 \<or> alpha > 1 then (Inl Out_of_range, s)
      else (Inr (), s\<lparr>d_alpha := alpha\<rparr>))"

definition set_beta :: "real \<Rightarrow> receiver \<Rightarrow> (error + unit) \<times> receiver" where
  "set_beta beta s =
     (if beta < 0 \<or> beta > 1 then (Inl Out_of_range, s)
      else (Inr (), s\<lparr>d_beta := beta\<rparr>))"

text \<open>\<^verbatim>\<open>set_frequency\<close> cannot throw: an if-else chain with three assignments.\<close>

definition set_frequency :: "real \<Rightarrow> receiver \<Rightarrow> receiver" where
  "set_frequency freq s =
     (if freq > d_max_freq s then s\<lparr>d_freq := d_min_freq s\<rparr>
      else if freq < d_min_freq s then s\<lparr>d_freq := d_max_freq s\<rparr>
      else s\<lparr>d_freq := freq\<rparr>)"

subsection \<open>Phase wrapping\<close>

text \<open>
  The two \<^verbatim>\<open>while\<close> loops of \<^verbatim>\<open>phase_error_tracking\<close>:
  \<^verbatim>\<open>while(d_phase > M_TWOPI) d_phase -= M_TWOPI;\<close> and
  \<^verbatim>\<open>while(d_phase < -M_TWOPI) d_phase += M_TWOPI;\<close>.
  Over the reals both end; the measures count the remaining turns. In single precision the
  subtraction is rounded: for a phase beyond \<open>2\<^sup>2\<^sup>7\<close> in magnitude it gives the
  phase back and the code's loop does not end, and no single-precision value equals the
  double-precision bound. The functions below are the loops in exact arithmetic; they are used
  for the order of the steps and for the other fields, and nothing is stated here about the
  value they return.
\<close>

function wrap_high :: "real \<Rightarrow> real" where
  "wrap_high p = (if p > M_TWOPI then wrap_high (p - M_TWOPI) else p)"
  by pat_completeness auto
termination
proof (relation "measure (\<lambda>p. nat \<lceil>p / M_TWOPI\<rceil>)")
  show "wf (measure (\<lambda>p. nat \<lceil>p / M_TWOPI\<rceil>))" by simp
next
  fix p :: real
  assume gt: "M_TWOPI < p"
  have pos: "0 < M_TWOPI" by (simp add: M_TWOPI_def)
  have "(p - M_TWOPI) / M_TWOPI = p / M_TWOPI - 1"
    using pos by (simp add: diff_divide_distrib)
  then have step: "\<lceil>(p - M_TWOPI) / M_TWOPI\<rceil> = \<lceil>p / M_TWOPI\<rceil> - 1" by simp
  have "1 < p / M_TWOPI" using gt pos by simp
  then have "1 < \<lceil>p / M_TWOPI\<rceil>" by linarith
  with step show "(p - M_TWOPI, p) \<in> measure (\<lambda>p. nat \<lceil>p / M_TWOPI\<rceil>)" by simp
qed

function wrap_low :: "real \<Rightarrow> real" where
  "wrap_low p = (if p < - M_TWOPI then wrap_low (p + M_TWOPI) else p)"
  by pat_completeness auto
termination
proof (relation "measure (\<lambda>p. nat \<lceil>(- p) / M_TWOPI\<rceil>)")
  show "wf (measure (\<lambda>p. nat \<lceil>(- p) / M_TWOPI\<rceil>))" by simp
next
  fix p :: real
  assume lt: "p < - M_TWOPI"
  have pos: "0 < M_TWOPI" by (simp add: M_TWOPI_def)
  have "(- (p + M_TWOPI)) / M_TWOPI = (- p) / M_TWOPI - 1"
    using pos by (simp add: field_simps)
  then have step: "\<lceil>(- (p + M_TWOPI)) / M_TWOPI\<rceil> = \<lceil>(- p) / M_TWOPI\<rceil> - 1" by simp
  have "1 < (- p) / M_TWOPI" using lt pos by (simp add: field_simps)
  then have "1 < \<lceil>(- p) / M_TWOPI\<rceil>" by linarith
  with step have "nat \<lceil>(- (p + M_TWOPI)) / M_TWOPI\<rceil> < nat \<lceil>(- p) / M_TWOPI\<rceil>"
    by linarith
  then show "(p + M_TWOPI, p) \<in> measure (\<lambda>p. nat \<lceil>(- p) / M_TWOPI\<rceil>)"
    unfolding in_measure .
qed

declare wrap_high.simps [simp del] wrap_low.simps [simp del]

subsection \<open>The tracking step\<close>

text \<open>Modelled from the spec: \<^verbatim>\<open>gr_branchless_clip\<close> is declared in
  \<^verbatim>\<open>gr_math.h\<close>, which is not among the sources. The spec describes the call as a
  ``branchless range clip on magnitude, preserving sign'' that clamps the value
  ``symmetrically to within [-max_freq, max_freq]'': the magnitude is cut at \<open>clip\<close> and the
  sign of \<open>x\<close> is kept.
\<close>

definition gr_branchless_clip :: "real \<Rightarrow> real \<Rightarrow> real" where
  "gr_branchless_clip x clip = sgn x * min \<bar>x\<bar> clip"

text \<open>
  \<^verbatim>\<open>phase_error_tracking\<close>, statement by statement: the frequency, the phase (which
  reads the frequency just written), the two wrapping loops, the clip. The
  \<^verbatim>\<open>printf\<close> under \<^verbatim>\<open>VERBOSE_COSTAS\<close> is compiled out.
\<close>

definition phase_error_tracking :: "real \<Rightarrow> receiver \<Rightarrow> receiver" where
  "phase_error_tracking phase_error s =
     (let s1 = s\<lparr>d_freq := d_freq s + d_beta s * phase_error\<rparr>;
          s2 = s1\<lparr>d_phase := d_phase s1 + (d_freq s1 + d_alpha s1 * phase_error)\<rparr>;
          s3 = s2\<lparr>d_phase := wrap_high (d_phase s2)\<rparr>;
          s4 = s3\<lparr>d_phase := wrap_low (d_phase s3)\<rparr>;
          s5 = s4\<lparr>d_freq := gr_branchless_clip (d_freq s4) (d_max_freq s4)\<rparr>
      in s5)"

subsection \<open>The work function\<close>

text \<open>
  \<^verbatim>\<open>gr_expj\<close> is declared in \<^verbatim>\<open>gr_expj.h\<close>, which is not among the sources.
  It is GNU Radio's complex exponential of an imaginary argument, as its name says:
  \<^verbatim>\<open>gr_expj(phase)\<close> is \<open>exp (j * phase)\<close>, the complex number with real part
  \<open>cos phase\<close> and imaginary part \<open>sin phase\<close>.
\<close>

definition gr_expj :: "real \<Rightarrow> complex" where
  "gr_expj phase = Complex (cos phase) (sin phase)"

text \<open>
  Lines 237 and 238 of the loop body: the NCO value for the current phase, and the
  downconverted symbol \<^verbatim>\<open>nco*sample\<close> that goes to the constellation.
\<close>

definition downconvert :: "receiver \<Rightarrow> complex \<Rightarrow> complex" where
  "downconvert s sample = (let nco = gr_expj (d_phase s) in nco * sample)"

text \<open>
  The output buffers are memory behind pointers; each is a map from index to value.
  \<^verbatim>\<open>out\<close> holds \<^verbatim>\<open>unsigned char\<close>, so the \<^verbatim>\<open>unsigned int\<close> symbol value is
  stored modulo 256. The three diagnostic buffers exist only when four outputs are connected.
\<close>

record buffers =
  out :: "nat \<Rightarrow> nat"
  out_err :: "nat \<Rightarrow> real"
  out_phase :: "nat \<Rightarrow> real"
  out_freq :: "nat \<Rightarrow> real"

text \<open>One turn of the \<^verbatim>\<open>while\<close> loop at index \<open>i\<close>; \<open>n_out\<close> is
  \<^verbatim>\<open>output_items.size()\<close>.\<close>

definition work_body :: "nat \<Rightarrow> (nat \<Rightarrow> complex) \<Rightarrow> int \<Rightarrow> receiver \<times> buffers \<Rightarrow> receiver \<times> buffers" where
  "work_body n_out inp i sb =
     (case sb of (s, b) \<Rightarrow>
        (let sample = downconvert s (inp (nat i));
             (sym_value, phase_error) = decision_maker_pe (d_constellation s) sample;
             s' = phase_error_tracking phase_error s;
             b1 = b\<lparr>out := (out b)(nat i := sym_value mod 256)\<rparr>;
             b2 = (if n_out = 4
                   then b1\<lparr>out_err := (out_err b1)(nat i := phase_error),
                           out_phase := (out_phase b1)(nat i := d_phase s'),
                           out_freq := (out_freq b1)(nat i := d_freq s')\<rparr>
                   else b1)
         in (s', b2)))"

text \<open>
  The loop \<^verbatim>\<open>while((i < noutput_items) && (i < ninput_items[0]))\<close>; it returns the final
  counter with the receiver and the buffers.
\<close>

function work_loop ::
  "nat \<Rightarrow> (nat \<Rightarrow> complex) \<Rightarrow> int \<Rightarrow> int \<Rightarrow> int \<Rightarrow> receiver \<times> buffers \<Rightarrow> int \<times> receiver \<times> buffers" where
  "work_loop n_out inp noutput_items ninput_items0 i sb =
     (if i < noutput_items \<and> i < ninput_items0
      then work_loop n_out inp noutput_items ninput_items0 (i + 1) (work_body n_out inp i sb)
      else (i, sb))"
  by pat_completeness auto
termination
  by (relation "measure (\<lambda>(n_out, inp, noutput_items, ninput_items0, i, sb). nat (noutput_items - i))")
     auto

declare work_loop.simps [simp del]

text \<open>
  \<^verbatim>\<open>general_work\<close>: the loop from \<open>i = 0\<close>, then \<^verbatim>\<open>consume_each(i)\<close> and
  \<^verbatim>\<open>return i\<close>. \<^verbatim>\<open>consume_each\<close> belongs to the scheduler; what it is told is
  recorded in \<open>consumed\<close>.
\<close>

record work_result =
  returned :: int
  consumed :: int
  receiver_after :: receiver
  buffers_after :: buffers

definition general_work ::
  "int \<Rightarrow> int \<Rightarrow> (nat \<Rightarrow> complex) \<Rightarrow> nat \<Rightarrow> buffers \<Rightarrow> receiver \<Rightarrow> work_result" where
  "general_work noutput_items ninput_items0 inp n_out b s =
     (case work_loop n_out inp noutput_items ninput_items0 0 (s, b) of
        (i, s', b') \<Rightarrow>
          \<lparr>returned = i, consumed = i, receiver_after = s', buffers_after = b'\<rparr>)"

subsection \<open>Construction\<close>

text \<open>
  The constructor: the member initialisers, the dimensionality check, the damping factor
  \<^verbatim>\<open>sqrtf(2.0f)/2.0f\<close>, then \<^verbatim>\<open>set_loop_bandwidth(loop_bw)\<close>. An exception leaves no
  object behind, so the result is either the error or the receiver. The members
  \<^verbatim>\<open>d_damping\<close>, \<^verbatim>\<open>d_loop_bw\<close>, \<^verbatim>\<open>d_alpha\<close> and \<^verbatim>\<open>d_beta\<close> have no
  initialiser; each is assigned before it is first read, and the 0 written for them here is
  never used.
\<close>

definition digital_constellation_receiver_cb ::
  "constellation \<Rightarrow> real \<Rightarrow> real \<Rightarrow> real \<Rightarrow> error + receiver" where
  "digital_constellation_receiver_cb constell loop_bw fmin fmax =
     (let s0 = \<lparr>d_freq = 0, d_max_freq = fmax, d_min_freq = fmin, d_phase = 0,
                d_constellation = constell, d_current_const_point = 0,
                d_damping = 0, d_loop_bw = 0, d_alpha = 0, d_beta = 0\<rparr>
      in if dimensionality (d_constellation s0) \<noteq> 1 then Inl Runtime_error
         else (let s1 = s0\<lparr>d_damping := sqrt 2 / 2\<rparr>
               in case set_loop_bandwidth loop_bw s1 of
                    (Inl e, _) \<Rightarrow> Inl e
                  | (Inr _, s2) \<Rightarrow> Inr s2))"

section \<open>Auxiliary facts\<close>

subsection \<open>The tracking step and the clip\<close>

lemma tracking_closed_form:
  "phase_error_tracking e s =
     s\<lparr>d_freq := gr_branchless_clip (d_freq s + d_beta s * e) (d_max_freq s),
       d_phase := wrap_low (wrap_high (d_phase s + (d_freq s + d_beta s * e + d_alpha s * e)))\<rparr>"
  by (simp add: phase_error_tracking_def Let_def)

lemma gr_branchless_clip_abs: "0 \<le> clip \<Longrightarrow> \<bar>gr_branchless_clip x clip\<bar> \<le> clip"
  by (simp add: gr_branchless_clip_def abs_mult sgn_real_def)

text \<open>For a non-negative bound the clip is the clamp to \<open>[-clip, clip]\<close>, and it is the
  value of the branch-free expression built from two absolute values.\<close>

lemma gr_branchless_clip_clamp:
  "0 \<le> clip \<Longrightarrow> gr_branchless_clip x clip = max (- clip) (min x clip)"
  by (auto simp: gr_branchless_clip_def sgn_real_def)

lemma gr_branchless_clip_formula:
  "0 \<le> clip \<Longrightarrow> gr_branchless_clip x clip = (\<bar>x + clip\<bar> - \<bar>x - clip\<bar>) / 2"
  by (auto simp: gr_branchless_clip_def sgn_real_def abs_real_def min_def)

subsection \<open>The gains\<close>

lemma denom_ge_1:
  assumes "0 \<le> d_damping s" "0 \<le> d_loop_bw s"
  shows "1 \<le> denom s"
proof -
  have "0 \<le> 2 * d_damping s * d_loop_bw s" using assms by simp
  moreover have "0 \<le> d_loop_bw s * d_loop_bw s" by simp
  ultimately show ?thesis unfolding denom_def by linarith
qed

lemma update_gains_alpha: "d_alpha (update_gains s) = 4 * d_damping s * d_loop_bw s / denom s"
  by (simp add: update_gains_def Let_def)

lemma update_gains_beta: "d_beta (update_gains s) = 4 * d_loop_bw s * d_loop_bw s / denom s"
  by (simp add: update_gains_def Let_def)

lemma alpha_nonneg:
  assumes "0 \<le> d_damping s" "0 \<le> d_loop_bw s"
  shows "0 \<le> d_alpha (update_gains s)"
proof -
  have "0 < denom s" using denom_ge_1 [OF assms] by linarith
  moreover have "0 \<le> 4 * d_damping s * d_loop_bw s" using assms by simp
  ultimately show ?thesis by (simp add: update_gains_alpha)
qed

lemma beta_nonneg:
  assumes "0 \<le> d_damping s" "0 \<le> d_loop_bw s"
  shows "0 \<le> d_beta (update_gains s)"
proof -
  have "0 < denom s" using denom_ge_1 [OF assms] by linarith
  moreover have "0 \<le> 4 * d_loop_bw s * d_loop_bw s"
    using assms by simp
  ultimately show ?thesis unfolding update_gains_beta by (rule divide_nonneg_pos [rotated])
qed

lemma beta_le_4:
  assumes "0 \<le> d_damping s" "0 \<le> d_loop_bw s"
  shows "d_beta (update_gains s) \<le> 4"
proof -
  have pos: "0 < denom s" using denom_ge_1 [OF assms] by linarith
  have "0 \<le> d_damping s * d_loop_bw s" using assms by simp
  then have "4 * (d_loop_bw s * d_loop_bw s) \<le>
             4 * (1 + 2 * (d_damping s * d_loop_bw s) + d_loop_bw s * d_loop_bw s)"
    by simp
  then have "4 * d_loop_bw s * d_loop_bw s \<le> 4 * denom s"
    by (simp add: denom_def mult.assoc)
  then show ?thesis
    using pos by (simp add: update_gains_beta pos_divide_le_eq)
qed

text \<open>The proportional gain stays below 1: \<open>2 * d * b \<le> 2 * b \<le> 1 + b\<^sup>2\<close> when
  \<open>d \<le> 1\<close>.\<close>

lemma alpha_le_1:
  assumes "0 \<le> d_damping s" "d_damping s \<le> 1" "0 \<le> d_loop_bw s"
  shows "d_alpha (update_gains s) \<le> 1"
proof -
  have pos: "0 < denom s" using denom_ge_1 [OF assms(1,3)] by linarith
  have "d_damping s * d_loop_bw s \<le> 1 * d_loop_bw s"
    using assms by (intro mult_right_mono) auto
  moreover have "0 \<le> (d_loop_bw s - 1) * (d_loop_bw s - 1)" by simp
  then have "2 * d_loop_bw s \<le> 1 + d_loop_bw s * d_loop_bw s"
    by (simp add: algebra_simps)
  ultimately have "4 * d_damping s * d_loop_bw s \<le> denom s"
    unfolding denom_def by linarith
  then show ?thesis
    using pos by (simp add: update_gains_alpha pos_divide_le_eq)
qed

subsection \<open>The work loop\<close>

text \<open>The loop applies the body at the indices from \<open>i\<close> up to, and without, the smaller
  of the two item counts, in order, and stops with the counter there.\<close>

lemma work_loop_foldl:
  "0 \<le> i \<Longrightarrow>
   work_loop n_out inp noutput_items ninput_items0 i sb =
     (max i (min noutput_items ninput_items0),
      foldl (\<lambda>sb k. work_body n_out inp (int k) sb) sb
            [nat i ..< nat (min noutput_items ninput_items0)])"
proof (induction n_out inp noutput_items ninput_items0 i sb rule: work_loop.induct)
  case (1 n_out inp noutput_items ninput_items0 i sb)
  show ?case
  proof (cases "i < noutput_items \<and> i < ninput_items0")
    case True
    then have lt: "nat i < nat (min noutput_items ninput_items0)" using "1.prems" by simp
    have nxt: "nat (i + 1) = Suc (nat i)" using "1.prems" by simp
    have "work_loop n_out inp noutput_items ninput_items0 i sb =
          work_loop n_out inp noutput_items ninput_items0 (i + 1) (work_body n_out inp i sb)"
      using True by (subst work_loop.simps) simp
    also have "\<dots> = (max (i + 1) (min noutput_items ninput_items0),
                      foldl (\<lambda>sb k. work_body n_out inp (int k) sb) (work_body n_out inp i sb)
                            [nat (i + 1) ..< nat (min noutput_items ninput_items0)])"
      using "1.IH" [OF True] "1.prems" by simp
    also have "max (i + 1) (min noutput_items ninput_items0) = max i (min noutput_items ninput_items0)"
      using True by simp
    also have "foldl (\<lambda>sb k. work_body n_out inp (int k) sb) (work_body n_out inp i sb)
                     [nat (i + 1) ..< nat (min noutput_items ninput_items0)] =
               foldl (\<lambda>sb k. work_body n_out inp (int k) sb) sb
                     [nat i ..< nat (min noutput_items ninput_items0)]"
      using lt "1.prems" by (simp add: upt_conv_Cons nxt)
    finally show ?thesis .
  next
    case False
    then have "work_loop n_out inp noutput_items ninput_items0 i sb = (i, sb)"
      by (subst work_loop.simps) auto
    moreover from False have "nat (min noutput_items ninput_items0) \<le> nat i" by auto
    moreover from False have "max i (min noutput_items ninput_items0) = i" by auto
    ultimately show ?thesis by simp
  qed
qed

lemma nat_max_0: "nat (max 0 (m::int)) = nat m"
  by (cases "0 \<le> m") (simp_all add: max_def)

lemma general_work_foldl:
  "general_work noutput_items ninput_items0 inp n_out b s =
     (let n = max 0 (min noutput_items ninput_items0);
          sb = foldl (\<lambda>sb k. work_body n_out inp (int k) sb) (s, b) [0 ..< nat n]
      in \<lparr>returned = n, consumed = n, receiver_after = fst sb, buffers_after = snd sb\<rparr>)"
proof -
  have n: "nat (max 0 (min noutput_items ninput_items0)) = nat (min noutput_items ninput_items0)"
    by (rule nat_max_0)
  show ?thesis
    by (simp add: general_work_def work_loop_foldl Let_def split_beta n)
qed

lemma work_body_receiver:
  "fst (work_body n_out inp i sb) =
     phase_error_tracking
       (snd (decision_maker_pe (d_constellation (fst sb)) (downconvert (fst sb) (inp (nat i)))))
       (fst sb)"
  by (simp add: work_body_def Let_def split_beta)

lemma work_body_out_at:
  "out (snd (work_body n_out inp i sb)) (nat i) =
     fst (decision_maker_pe (d_constellation (fst sb)) (downconvert (fst sb) (inp (nat i)))) mod 256"
  by (simp add: work_body_def Let_def split_beta)

lemma work_body_out_other:
  "j \<noteq> nat i \<Longrightarrow> out (snd (work_body n_out inp i sb)) j = out (snd sb) j"
  by (simp add: work_body_def Let_def split_beta)

text \<open>A later turn of the loop writes at its own index only.\<close>

lemma foldl_out_other:
  "j \<notin> set ks \<Longrightarrow>
   out (snd (foldl (\<lambda>sb k. work_body n_out inp (int k) sb) sb ks)) j = out (snd sb) j"
proof (induction ks arbitrary: sb)
  case Nil
  show ?case by simp
next
  case (Cons k ks)
  then have "j \<noteq> nat (int k)" and "j \<notin> set ks" by auto
  then show ?case using Cons.IH by (simp add: work_body_out_other)
qed

lemma gr_expj_exp: "gr_expj phase = exp (\<i> * complex_of_real phase)"
  by (simp add: gr_expj_def cis_conv_exp [symmetric] complex_eq_iff)

lemma downconvert_exp: "downconvert s x = x * exp (\<i> * complex_of_real (d_phase s))"
  by (simp add: downconvert_def gr_expj_exp)

lemma general_work_0:
  "general_work 0 ninput_items0 inp n_out b s =
     \<lparr>returned = 0, consumed = 0, receiver_after = s, buffers_after = b\<rparr>"
  by (simp add: general_work_def work_loop.simps)

section \<open>The claims\<close>

subsection \<open>C1: the rotation applied to each sample\<close>

text \<open>
  C1 says that every input sample is multiplied by \<open>exp (-j * phase)\<close> before it goes to
  the constellation's decision function. The loop body computes
  \<^verbatim>\<open>nco = gr_expj(d_phase); sample = nco*sample\<close>: the phase is passed as it is, so the
  factor is \<open>exp (+j * phase)\<close>. With the phase at \<open>pi / 2\<close> the sample 1 becomes \<open>j\<close>,
  where the claim has \<open>-j\<close>.
\<close>

theorem downconvert_sign_counterexample:
  "downconvert
      \<lparr>d_freq = 0, d_max_freq = 1, d_min_freq = - 1, d_phase = pi / 2,
       d_constellation = \<lparr>dimensionality = 1, decision_maker_pe = (\<lambda>z. (0, 0))\<rparr>,
       d_current_const_point = 0, d_damping = 1, d_loop_bw = 0, d_alpha = 0, d_beta = 0\<rparr> 1 = \<i>
   \<and> 1 * exp (- (\<i> * complex_of_real (pi / 2))) = - \<i>
   \<and> downconvert
      \<lparr>d_freq = 0, d_max_freq = 1, d_min_freq = - 1, d_phase = pi / 2,
       d_constellation = \<lparr>dimensionality = 1, decision_maker_pe = (\<lambda>z. (0, 0))\<rparr>,
       d_current_const_point = 0, d_damping = 1, d_loop_bw = 0, d_alpha = 0, d_beta = 0\<rparr> 1
      \<noteq> 1 * exp (- (\<i> * complex_of_real (pi / 2)))"
proof -
  have "exp (- (\<i> * complex_of_real (pi / 2))) = cis (- (pi / 2))"
    by (simp add: cis_conv_exp)
  also have "\<dots> = - \<i>" by (simp add: complex_eq_iff)
  finally have e: "exp (- (\<i> * complex_of_real (pi / 2))) = - \<i>" .
  have d: "gr_expj (pi / 2) = \<i>" by (simp add: gr_expj_def complex_eq_iff)
  show ?thesis using e d by (simp add: downconvert_def complex_eq_iff)
qed

text \<open>
  C1, amended: every sample the loop processes is multiplied by \<open>exp (j * phase)\<close>, where
  \<open>phase\<close> is the phase estimate at that moment, and the product is what the decision
  function receives. For the sample at index \<open>k\<close> the phase estimate is the one the receiver
  holds after the \<open>k\<close> samples before it; the symbol written to \<^verbatim>\<open>out[k]\<close> and the
  phase error fed to the tracking step are the decision function's two results at that product.
\<close>

theorem samples_rotated_by_nco:
  "downconvert s x = x * exp (\<i> * complex_of_real (d_phase s)) \<and>
   (0 \<le> k \<and> k < noutput_items \<and> k < ninput_items0 \<longrightarrow>
      (let s_k = receiver_after (general_work k ninput_items0 inp n_out b s);
           z = inp (nat k) * exp (\<i> * complex_of_real (d_phase s_k))
       in out (buffers_after (general_work noutput_items ninput_items0 inp n_out b s)) (nat k) =
            fst (decision_maker_pe (d_constellation s_k) z) mod 256 \<and>
          receiver_after (general_work (k + 1) ninput_items0 inp n_out b s) =
            phase_error_tracking (snd (decision_maker_pe (d_constellation s_k) z)) s_k))"
proof (intro conjI impI)
  show "downconvert s x = x * exp (\<i> * complex_of_real (d_phase s))"
    by (rule downconvert_exp)
next
  assume k: "0 \<le> k \<and> k < noutput_items \<and> k < ninput_items0"
  let ?F = "\<lambda>sb k. work_body n_out inp (int k) sb"
  let ?n = "nat (min noutput_items ninput_items0)"
  let ?sbk = "foldl ?F (s, b) [0 ..< nat k]"
  have kn: "nat k < ?n" using k by simp
  have r_k: "receiver_after (general_work k ninput_items0 inp n_out b s) = fst ?sbk"
    using k by (simp add: general_work_foldl Let_def min_def max_def)
  have r_k1: "receiver_after (general_work (k + 1) ninput_items0 inp n_out b s) =
              fst (work_body n_out inp k ?sbk)"
  proof -
    have "max 0 (min (k + 1) ninput_items0) = k + 1" using k by simp
    moreover have "nat (k + 1) = Suc (nat k)" using k by linarith
    ultimately show ?thesis using k by (simp add: general_work_foldl Let_def)
  qed
  have split: "[0 ..< ?n] = [0 ..< nat k] @ nat k # [Suc (nat k) ..< ?n]"
    using kn by (metis upt_conv_Cons upt_add_eq_append le_add_diff_inverse less_imp_le_nat zero_le)
  have "out (buffers_after (general_work noutput_items ninput_items0 inp n_out b s)) (nat k) =
        out (snd (foldl ?F (s, b) [0 ..< ?n])) (nat k)"
    by (simp add: general_work_foldl Let_def nat_max_0)
  also have "\<dots> = out (snd (foldl ?F (work_body n_out inp k ?sbk) [Suc (nat k) ..< ?n])) (nat k)"
    using k by (simp add: split)
  also have "\<dots> = out (snd (work_body n_out inp k ?sbk)) (nat k)"
    by (rule foldl_out_other) simp
  also have "\<dots> = fst (decision_maker_pe (d_constellation (fst ?sbk))
                        (downconvert (fst ?sbk) (inp (nat k)))) mod 256"
    by (rule work_body_out_at)
  finally have o: "out (buffers_after (general_work noutput_items ninput_items0 inp n_out b s)) (nat k) =
      fst (decision_maker_pe (d_constellation (fst ?sbk)) (downconvert (fst ?sbk) (inp (nat k)))) mod 256" .
  show "let s_k = receiver_after (general_work k ninput_items0 inp n_out b s);
            z = inp (nat k) * exp (\<i> * complex_of_real (d_phase s_k))
        in out (buffers_after (general_work noutput_items ninput_items0 inp n_out b s)) (nat k) =
             fst (decision_maker_pe (d_constellation s_k) z) mod 256 \<and>
           receiver_after (general_work (k + 1) ninput_items0 inp n_out b s) =
             phase_error_tracking (snd (decision_maker_pe (d_constellation s_k) z)) s_k"
    unfolding Let_def r_k r_k1 o work_body_receiver downconvert_exp by simp
qed

text \<open>One sample, the phase at \<open>pi / 2\<close>, and a decision function that answers 1 in the
  upper half plane: the sample 1 arrives there as \<open>j\<close> and the symbol written is 1.\<close>

theorem samples_rotated_by_nco_witness:
  "(0::int) \<le> 0 \<and> (0::int) < 1 \<and>
   out (buffers_after (general_work 1 1 (\<lambda>i. 1) 1
      \<lparr>out = (\<lambda>i. 0), out_err = (\<lambda>i. 0), out_phase = (\<lambda>i. 0), out_freq = (\<lambda>i. 0)\<rparr>
      \<lparr>d_freq = 0, d_max_freq = 1, d_min_freq = - 1, d_phase = pi / 2,
       d_constellation = \<lparr>dimensionality = 1, decision_maker_pe = (\<lambda>z. (if 0 < Im z then 1 else 0, 0))\<rparr>,
       d_current_const_point = 0, d_damping = 1, d_loop_bw = 0, d_alpha = 0, d_beta = 0\<rparr>)) (nat 0) = 1"
proof -
  have e: "exp (\<i> * complex_of_real (pi / 2)) = \<i>"
    by (metis cis_conv_exp cis_pi_half)
  then have e': "exp (\<i> * complex_of_real pi / 2) = \<i>" by simp
  show ?thesis
    using samples_rotated_by_nco [of
      "\<lparr>d_freq = 0, d_max_freq = 1, d_min_freq = - 1, d_phase = pi / 2,
       d_constellation = \<lparr>dimensionality = 1, decision_maker_pe = (\<lambda>z. (if 0 < Im z then 1 else 0, 0))\<rparr>,
       d_current_const_point = 0, d_damping = 1, d_loop_bw = 0, d_alpha = 0, d_beta = 0\<rparr>"
      1 0 1 1 "\<lambda>i. 1" 1
      "\<lparr>out = (\<lambda>i. 0), out_err = (\<lambda>i. 0), out_phase = (\<lambda>i. 0), out_freq = (\<lambda>i. 0)\<rparr>"]
    by (simp add: general_work_0 e e' Let_def)
qed

subsection \<open>C3: the frequency setter\<close>

text \<open>
  C3: for every \<open>f\<close>, \<^verbatim>\<open>set_frequency(f)\<close> stores \<open>min_freq\<close> when \<open>f > max_freq\<close>,
  stores \<open>max_freq\<close> when \<open>f < min_freq\<close>, and stores \<open>f\<close> when
  \<open>min_freq \<le> f \<le> max_freq\<close>; it cannot fail (its result is a receiver, with no error
  alternative) and it changes no field but the frequency. The bounds are ordered,
  \<open>min_freq \<le> max_freq\<close>, as the data model of the receiver has them; the code tests
  \<open>f > max_freq\<close> first.
\<close>

theorem set_frequency_wraps_at_bounds:
  assumes "d_min_freq s \<le> d_max_freq s"
  shows "(f > d_max_freq s \<longrightarrow> d_freq (set_frequency f s) = d_min_freq s) \<and>
         (f < d_min_freq s \<longrightarrow> d_freq (set_frequency f s) = d_max_freq s) \<and>
         (d_min_freq s \<le> f \<and> f \<le> d_max_freq s \<longrightarrow> d_freq (set_frequency f s) = f) \<and>
         set_frequency f s = s\<lparr>d_freq := d_freq (set_frequency f s)\<rparr>"
  using assms by (auto simp: set_frequency_def)

theorem set_frequency_wraps_at_bounds_witness:
  "(- 1 :: real) \<le> 1 \<and>
   d_freq (set_frequency 2
      \<lparr>d_freq = 0, d_max_freq = 1, d_min_freq = - 1, d_phase = 0,
       d_constellation = \<lparr>dimensionality = 1, decision_maker_pe = (\<lambda>z. (0, 0))\<rparr>,
       d_current_const_point = 0, d_damping = 1, d_loop_bw = 0, d_alpha = 0, d_beta = 0\<rparr>) = - 1 \<and>
   d_freq (set_frequency (- 2)
      \<lparr>d_freq = 0, d_max_freq = 1, d_min_freq = - 1, d_phase = 0,
       d_constellation = \<lparr>dimensionality = 1, decision_maker_pe = (\<lambda>z. (0, 0))\<rparr>,
       d_current_const_point = 0, d_damping = 1, d_loop_bw = 0, d_alpha = 0, d_beta = 0\<rparr>) = 1 \<and>
   d_freq (set_frequency (1 / 2)
      \<lparr>d_freq = 0, d_max_freq = 1, d_min_freq = - 1, d_phase = 0,
       d_constellation = \<lparr>dimensionality = 1, decision_maker_pe = (\<lambda>z. (0, 0))\<rparr>,
       d_current_const_point = 0, d_damping = 1, d_loop_bw = 0, d_alpha = 0, d_beta = 0\<rparr>) = 1 / 2"
  using set_frequency_wraps_at_bounds [of
      "\<lparr>d_freq = 0, d_max_freq = 1, d_min_freq = - 1, d_phase = 0,
       d_constellation = \<lparr>dimensionality = 1, decision_maker_pe = (\<lambda>z. (0, 0))\<rparr>,
       d_current_const_point = 0, d_damping = 1, d_loop_bw = 0, d_alpha = 0, d_beta = 0\<rparr>" 2]
    set_frequency_wraps_at_bounds [of
      "\<lparr>d_freq = 0, d_max_freq = 1, d_min_freq = - 1, d_phase = 0,
       d_constellation = \<lparr>dimensionality = 1, decision_maker_pe = (\<lambda>z. (0, 0))\<rparr>,
       d_current_const_point = 0, d_damping = 1, d_loop_bw = 0, d_alpha = 0, d_beta = 0\<rparr>" "- 2"]
    set_frequency_wraps_at_bounds [of
      "\<lparr>d_freq = 0, d_max_freq = 1, d_min_freq = - 1, d_phase = 0,
       d_constellation = \<lparr>dimensionality = 1, decision_maker_pe = (\<lambda>z. (0, 0))\<rparr>,
       d_current_const_point = 0, d_damping = 1, d_loop_bw = 0, d_alpha = 0, d_beta = 0\<rparr>" "1 / 2"]
  by simp

subsection \<open>C4: the range of the derived gains\<close>

text \<open>
  C4 says that the gains derived by \<^verbatim>\<open>update_gains\<close> from a bandwidth \<open>\<ge> 0\<close> and a
  damping factor in \<open>[0, 1]\<close> both lie in \<open>[0, 1]\<close>. For \<open>alpha\<close> this holds; \<open>beta\<close> is
  \<open>4 * bw\<^sup>2 / denom\<close> and passes 1 as the bandwidth grows: with damping \<open>1/2\<close>,
  \<^verbatim>\<open>set_loop_bandwidth(2)\<close> succeeds and leaves \<open>beta\<close> at \<open>16/7\<close>, above 2.
\<close>

theorem derived_beta_counterexample:
  "fst (set_loop_bandwidth 2
      \<lparr>d_freq = 0, d_max_freq = 1, d_min_freq = - 1, d_phase = 0,
       d_constellation = \<lparr>dimensionality = 1, decision_maker_pe = (\<lambda>z. (0, 0))\<rparr>,
       d_current_const_point = 0, d_damping = 1 / 2, d_loop_bw = 0, d_alpha = 0, d_beta = 0\<rparr>) = Inr ()
   \<and> 2 < d_beta (snd (set_loop_bandwidth 2
      \<lparr>d_freq = 0, d_max_freq = 1, d_min_freq = - 1, d_phase = 0,
       d_constellation = \<lparr>dimensionality = 1, decision_maker_pe = (\<lambda>z. (0, 0))\<rparr>,
       d_current_const_point = 0, d_damping = 1 / 2, d_loop_bw = 0, d_alpha = 0, d_beta = 0\<rparr>))
   \<and> \<not> (d_beta (snd (set_loop_bandwidth 2
      \<lparr>d_freq = 0, d_max_freq = 1, d_min_freq = - 1, d_phase = 0,
       d_constellation = \<lparr>dimensionality = 1, decision_maker_pe = (\<lambda>z. (0, 0))\<rparr>,
       d_current_const_point = 0, d_damping = 1 / 2, d_loop_bw = 0, d_alpha = 0, d_beta = 0\<rparr>)) \<le> 1)"
  by (simp add: set_loop_bandwidth_def update_gains_def denom_def Let_def)

text \<open>
  C4, amended: whenever \<open>alpha\<close> and \<open>beta\<close> are derived by \<^verbatim>\<open>update_gains\<close> from a
  bandwidth between 0 and \<open>2\<^sup>6\<^sup>2\<close> and a damping factor in \<open>[0, 1]\<close> (after a successful
  \<^verbatim>\<open>set_loop_bandwidth\<close> with such a bandwidth on a receiver whose damping factor is in
  \<open>[0, 1]\<close>, or a successful \<^verbatim>\<open>set_damping_factor\<close> on a receiver with such a
  bandwidth), \<open>alpha\<close> lies in \<open>[0, 1]\<close> and \<open>beta\<close> lies in \<open>[0, 4]\<close>. The upper end 4 is
  included: in exact arithmetic \<open>beta\<close> stays below it, in single precision the quotient
  rounds to it (at damping 0 and bandwidth 4096). The bound on the bandwidth is the range on
  which the single-precision products of \<^verbatim>\<open>update_gains\<close> stay finite.
\<close>

theorem derived_gains_range:
  "(fst (set_loop_bandwidth bw s) = Inr () \<and> bw \<le> 2 ^ 62 \<and>
    0 \<le> d_damping s \<and> d_damping s \<le> 1 \<longrightarrow>
      0 \<le> d_alpha (snd (set_loop_bandwidth bw s)) \<and> d_alpha (snd (set_loop_bandwidth bw s)) \<le> 1 \<and>
      0 \<le> d_beta (snd (set_loop_bandwidth bw s)) \<and> d_beta (snd (set_loop_bandwidth bw s)) \<le> 4) \<and>
   (fst (set_damping_factor df s) = Inr () \<and> 0 \<le> d_loop_bw s \<and> d_loop_bw s \<le> 2 ^ 62 \<longrightarrow>
      0 \<le> d_alpha (snd (set_damping_factor df s)) \<and> d_alpha (snd (set_damping_factor df s)) \<le> 1 \<and>
      0 \<le> d_beta (snd (set_damping_factor df s)) \<and> d_beta (snd (set_damping_factor df s)) \<le> 4) \<and>
   (0 \<le> d_loop_bw s \<and> d_loop_bw s \<le> 2 ^ 62 \<and> 0 \<le> d_damping s \<and> d_damping s \<le> 1 \<longrightarrow>
      0 \<le> d_alpha (update_gains s) \<and> d_alpha (update_gains s) \<le> 1 \<and>
      0 \<le> d_beta (update_gains s) \<and> d_beta (update_gains s) \<le> 4)"
proof (intro conjI impI)
  assume a: "fst (set_loop_bandwidth bw s) = Inr () \<and> bw \<le> 2 ^ 62 \<and>
             0 \<le> d_damping s \<and> d_damping s \<le> 1"
  then have bw: "\<not> bw < 0" by (auto simp: set_loop_bandwidth_def split: if_splits)
  then have eq: "snd (set_loop_bandwidth bw s) = update_gains (s\<lparr>d_loop_bw := bw\<rparr>)"
    by (simp add: set_loop_bandwidth_def)
  let ?t = "s\<lparr>d_loop_bw := bw\<rparr>"
  have t: "0 \<le> d_damping ?t" "d_damping ?t \<le> 1" "0 \<le> d_loop_bw ?t" using a bw by simp_all
  show "0 \<le> d_alpha (snd (set_loop_bandwidth bw s))" unfolding eq using t(1,3) by (rule alpha_nonneg)
  show "d_alpha (snd (set_loop_bandwidth bw s)) \<le> 1" unfolding eq using t by (rule alpha_le_1)
  show "0 \<le> d_beta (snd (set_loop_bandwidth bw s))" unfolding eq using t(1,3) by (rule beta_nonneg)
  show "d_beta (snd (set_loop_bandwidth bw s)) \<le> 4" unfolding eq using t(1,3) by (rule beta_le_4)
next
  assume a: "fst (set_damping_factor df s) = Inr () \<and> 0 \<le> d_loop_bw s \<and> d_loop_bw s \<le> 2 ^ 62"
  then have df: "\<not> (df < 0 \<or> df > 1)" by (auto simp: set_damping_factor_def split: if_splits)
  then have eq: "snd (set_damping_factor df s) = update_gains (s\<lparr>d_damping := df\<rparr>)"
    by (simp add: set_damping_factor_def)
  let ?t = "s\<lparr>d_damping := df\<rparr>"
  have t: "0 \<le> d_damping ?t" "d_damping ?t \<le> 1" "0 \<le> d_loop_bw ?t" using a df by simp_all
  show "0 \<le> d_alpha (snd (set_damping_factor df s))" unfolding eq using t(1,3) by (rule alpha_nonneg)
  show "d_alpha (snd (set_damping_factor df s)) \<le> 1" unfolding eq using t by (rule alpha_le_1)
  show "0 \<le> d_beta (snd (set_damping_factor df s))" unfolding eq using t(1,3) by (rule beta_nonneg)
  show "d_beta (snd (set_damping_factor df s)) \<le> 4" unfolding eq using t(1,3) by (rule beta_le_4)
next
  assume a: "0 \<le> d_loop_bw s \<and> d_loop_bw s \<le> 2 ^ 62 \<and> 0 \<le> d_damping s \<and> d_damping s \<le> 1"
  show "0 \<le> d_alpha (update_gains s)" using a by (simp add: alpha_nonneg)
  show "d_alpha (update_gains s) \<le> 1" using a by (simp add: alpha_le_1)
  show "0 \<le> d_beta (update_gains s)" using a by (simp add: beta_nonneg)
  show "d_beta (update_gains s) \<le> 4" using a by (simp add: beta_le_4)
qed

text \<open>Damping \<open>1/2\<close>: \<^verbatim>\<open>set_loop_bandwidth(2)\<close>, then \<^verbatim>\<open>set_damping_factor(1/2)\<close> and
  \<^verbatim>\<open>update_gains\<close> on the receiver as it is.\<close>

theorem derived_gains_range_witness:
  "fst (set_loop_bandwidth 2
      \<lparr>d_freq = 0, d_max_freq = 1, d_min_freq = - 1, d_phase = 0,
       d_constellation = \<lparr>dimensionality = 1, decision_maker_pe = (\<lambda>z. (0, 0))\<rparr>,
       d_current_const_point = 0, d_damping = 1 / 2, d_loop_bw = 0, d_alpha = 0, d_beta = 0\<rparr>) = Inr ()
   \<and> (2 :: real) \<le> 2 ^ 62
   \<and> d_alpha (snd (set_loop_bandwidth 2
      \<lparr>d_freq = 0, d_max_freq = 1, d_min_freq = - 1, d_phase = 0,
       d_constellation = \<lparr>dimensionality = 1, decision_maker_pe = (\<lambda>z. (0, 0))\<rparr>,
       d_current_const_point = 0, d_damping = 1 / 2, d_loop_bw = 0, d_alpha = 0, d_beta = 0\<rparr>)) \<le> 1
   \<and> d_beta (snd (set_loop_bandwidth 2
      \<lparr>d_freq = 0, d_max_freq = 1, d_min_freq = - 1, d_phase = 0,
       d_constellation = \<lparr>dimensionality = 1, decision_maker_pe = (\<lambda>z. (0, 0))\<rparr>,
       d_current_const_point = 0, d_damping = 1 / 2, d_loop_bw = 0, d_alpha = 0, d_beta = 0\<rparr>)) \<le> 4
   \<and> fst (set_damping_factor (1 / 2)
      \<lparr>d_freq = 0, d_max_freq = 1, d_min_freq = - 1, d_phase = 0,
       d_constellation = \<lparr>dimensionality = 1, decision_maker_pe = (\<lambda>z. (0, 0))\<rparr>,
       d_current_const_point = 0, d_damping = 1 / 2, d_loop_bw = 0, d_alpha = 0, d_beta = 0\<rparr>) = Inr ()
   \<and> d_beta (snd (set_damping_factor (1 / 2)
      \<lparr>d_freq = 0, d_max_freq = 1, d_min_freq = - 1, d_phase = 0,
       d_constellation = \<lparr>dimensionality = 1, decision_maker_pe = (\<lambda>z. (0, 0))\<rparr>,
       d_current_const_point = 0, d_damping = 1 / 2, d_loop_bw = 0, d_alpha = 0, d_beta = 0\<rparr>)) \<le> 4
   \<and> d_beta (update_gains
      \<lparr>d_freq = 0, d_max_freq = 1, d_min_freq = - 1, d_phase = 0,
       d_constellation = \<lparr>dimensionality = 1, decision_maker_pe = (\<lambda>z. (0, 0))\<rparr>,
       d_current_const_point = 0, d_damping = 1 / 2, d_loop_bw = 0, d_alpha = 0, d_beta = 0\<rparr>) \<le> 4"
  using derived_gains_range [of 2
      "\<lparr>d_freq = 0, d_max_freq = 1, d_min_freq = - 1, d_phase = 0,
       d_constellation = \<lparr>dimensionality = 1, decision_maker_pe = (\<lambda>z. (0, 0))\<rparr>,
       d_current_const_point = 0, d_damping = 1 / 2, d_loop_bw = 0, d_alpha = 0, d_beta = 0\<rparr>" "1 / 2"]
  by (simp add: set_loop_bandwidth_def set_damping_factor_def)

subsection \<open>C5: the order of the tracking step\<close>

text \<open>
  C5: \<^verbatim>\<open>phase_error_tracking\<close> with phase error \<open>e\<close> first adds \<open>beta * e\<close> to the
  frequency, then adds the frequency just updated (not the one from before the call) and
  \<open>alpha * e\<close> to the phase, then wraps the phase, then clips the frequency. In closed form:
  the new phase is the wrapped value of \<open>phase + (frequency + beta * e) + alpha * e\<close>, built
  from the updated and not yet clipped frequency; the new frequency is the clip of
  \<open>frequency + beta * e\<close>; no other field changes.
\<close>

theorem phase_error_tracking_order:
  "phase_error_tracking e s =
     s\<lparr>d_freq := gr_branchless_clip (d_freq s + d_beta s * e) (d_max_freq s),
       d_phase := wrap_low (wrap_high (d_phase s + ((d_freq s + d_beta s * e) + d_alpha s * e)))\<rparr>"
  by (simp add: phase_error_tracking_def Let_def)

subsection \<open>C6: the frequency bound after tracking\<close>

text \<open>
  C6: when \<open>max_freq \<ge> 0\<close>, after every tracking step the stored frequency satisfies
  \<open>|frequency| \<le> max_freq\<close>, for every phase error and every prior state, and the clip reads
  \<open>max_freq\<close> only: changing \<open>min_freq\<close> beforehand changes nothing in the frequency that
  results.
\<close>

theorem tracking_frequency_bounded:
  assumes "0 \<le> d_max_freq s"
  shows "\<bar>d_freq (phase_error_tracking e s)\<bar> \<le> d_max_freq s \<and>
         d_max_freq (phase_error_tracking e s) = d_max_freq s \<and>
         d_freq (phase_error_tracking e (s\<lparr>d_min_freq := m\<rparr>)) = d_freq (phase_error_tracking e s)"
  using assms by (simp add: tracking_closed_form gr_branchless_clip_abs)

theorem tracking_frequency_bounded_witness:
  "(0 :: real) \<le> 1 \<and>
   d_freq (phase_error_tracking 10
      \<lparr>d_freq = 0, d_max_freq = 1, d_min_freq = - 1, d_phase = 0,
       d_constellation = \<lparr>dimensionality = 1, decision_maker_pe = (\<lambda>z. (0, 0))\<rparr>,
       d_current_const_point = 0, d_damping = 1, d_loop_bw = 0, d_alpha = 0, d_beta = 1\<rparr>) = 1 \<and>
   \<bar>d_freq (phase_error_tracking 10
      \<lparr>d_freq = 0, d_max_freq = 1, d_min_freq = - 1, d_phase = 0,
       d_constellation = \<lparr>dimensionality = 1, decision_maker_pe = (\<lambda>z. (0, 0))\<rparr>,
       d_current_const_point = 0, d_damping = 1, d_loop_bw = 0, d_alpha = 0, d_beta = 1\<rparr>)\<bar> \<le> 1"
  using tracking_frequency_bounded [of
      "\<lparr>d_freq = 0, d_max_freq = 1, d_min_freq = - 1, d_phase = 0,
       d_constellation = \<lparr>dimensionality = 1, decision_maker_pe = (\<lambda>z. (0, 0))\<rparr>,
       d_current_const_point = 0, d_damping = 1, d_loop_bw = 0, d_alpha = 0, d_beta = 1\<rparr>" 10 0]
  by (simp add: tracking_closed_form gr_branchless_clip_def)

subsection \<open>C7: the validated setters reject before they apply\<close>

text \<open>
  C7: each of \<^verbatim>\<open>set_loop_bandwidth\<close>, \<^verbatim>\<open>set_damping_factor\<close>, \<^verbatim>\<open>set_alpha\<close> and
  \<^verbatim>\<open>set_beta\<close> throws the out-of-range error exactly when its argument is out of range
  (bandwidth below 0; damping, alpha, beta outside \<open>[0, 1]\<close>) and returns normally otherwise;
  when it throws, the receiver is the one from before the call, in every field.
\<close>

theorem setters_reject_before_apply:
  "((fst (set_loop_bandwidth bw s) = Inl Out_of_range) = (bw < 0)) \<and>
   ((fst (set_loop_bandwidth bw s) = Inr ()) = (\<not> bw < 0)) \<and>
   (fst (set_loop_bandwidth bw s) = Inl Out_of_range \<longrightarrow> snd (set_loop_bandwidth bw s) = s) \<and>
   ((fst (set_damping_factor df s) = Inl Out_of_range) = (df < 0 \<or> 1 < df)) \<and>
   ((fst (set_damping_factor df s) = Inr ()) = (0 \<le> df \<and> df \<le> 1)) \<and>
   (fst (set_damping_factor df s) = Inl Out_of_range \<longrightarrow> snd (set_damping_factor df s) = s) \<and>
   ((fst (set_alpha a s) = Inl Out_of_range) = (a < 0 \<or> 1 < a)) \<and>
   ((fst (set_alpha a s) = Inr ()) = (0 \<le> a \<and> a \<le> 1)) \<and>
   (fst (set_alpha a s) = Inl Out_of_range \<longrightarrow> snd (set_alpha a s) = s) \<and>
   ((fst (set_beta b s) = Inl Out_of_range) = (b < 0 \<or> 1 < b)) \<and>
   ((fst (set_beta b s) = Inr ()) = (0 \<le> b \<and> b \<le> 1)) \<and>
   (fst (set_beta b s) = Inl Out_of_range \<longrightarrow> snd (set_beta b s) = s)"
  by (auto simp: set_loop_bandwidth_def set_damping_factor_def set_alpha_def set_beta_def)

text \<open>The four calls of the spec's validation test: \<open>-1\<close>, \<open>1.5\<close>, \<open>-0.1\<close> and \<open>2.0\<close>.\<close>

theorem setters_reject_before_apply_witness:
  "fst (set_loop_bandwidth (- 1)
      \<lparr>d_freq = 0, d_max_freq = 1, d_min_freq = - 1, d_phase = 0,
       d_constellation = \<lparr>dimensionality = 1, decision_maker_pe = (\<lambda>z. (0, 0))\<rparr>,
       d_current_const_point = 0, d_damping = 1, d_loop_bw = 0, d_alpha = 0, d_beta = 0\<rparr>) = Inl Out_of_range
   \<and> snd (set_loop_bandwidth (- 1)
      \<lparr>d_freq = 0, d_max_freq = 1, d_min_freq = - 1, d_phase = 0,
       d_constellation = \<lparr>dimensionality = 1, decision_maker_pe = (\<lambda>z. (0, 0))\<rparr>,
       d_current_const_point = 0, d_damping = 1, d_loop_bw = 0, d_alpha = 0, d_beta = 0\<rparr>) =
      \<lparr>d_freq = 0, d_max_freq = 1, d_min_freq = - 1, d_phase = 0,
       d_constellation = \<lparr>dimensionality = 1, decision_maker_pe = (\<lambda>z. (0, 0))\<rparr>,
       d_current_const_point = 0, d_damping = 1, d_loop_bw = 0, d_alpha = 0, d_beta = 0\<rparr>
   \<and> snd (set_damping_factor (3 / 2)
      \<lparr>d_freq = 0, d_max_freq = 1, d_min_freq = - 1, d_phase = 0,
       d_constellation = \<lparr>dimensionality = 1, decision_maker_pe = (\<lambda>z. (0, 0))\<rparr>,
       d_current_const_point = 0, d_damping = 1, d_loop_bw = 0, d_alpha = 0, d_beta = 0\<rparr>) =
      \<lparr>d_freq = 0, d_max_freq = 1, d_min_freq = - 1, d_phase = 0,
       d_constellation = \<lparr>dimensionality = 1, decision_maker_pe = (\<lambda>z. (0, 0))\<rparr>,
       d_current_const_point = 0, d_damping = 1, d_loop_bw = 0, d_alpha = 0, d_beta = 0\<rparr>
   \<and> snd (set_alpha (- 1 / 10)
      \<lparr>d_freq = 0, d_max_freq = 1, d_min_freq = - 1, d_phase = 0,
       d_constellation = \<lparr>dimensionality = 1, decision_maker_pe = (\<lambda>z. (0, 0))\<rparr>,
       d_current_const_point = 0, d_damping = 1, d_loop_bw = 0, d_alpha = 0, d_beta = 0\<rparr>) =
      \<lparr>d_freq = 0, d_max_freq = 1, d_min_freq = - 1, d_phase = 0,
       d_constellation = \<lparr>dimensionality = 1, decision_maker_pe = (\<lambda>z. (0, 0))\<rparr>,
       d_current_const_point = 0, d_damping = 1, d_loop_bw = 0, d_alpha = 0, d_beta = 0\<rparr>
   \<and> snd (set_beta 2
      \<lparr>d_freq = 0, d_max_freq = 1, d_min_freq = - 1, d_phase = 0,
       d_constellation = \<lparr>dimensionality = 1, decision_maker_pe = (\<lambda>z. (0, 0))\<rparr>,
       d_current_const_point = 0, d_damping = 1, d_loop_bw = 0, d_alpha = 0, d_beta = 0\<rparr>) =
      \<lparr>d_freq = 0, d_max_freq = 1, d_min_freq = - 1, d_phase = 0,
       d_constellation = \<lparr>dimensionality = 1, decision_maker_pe = (\<lambda>z. (0, 0))\<rparr>,
       d_current_const_point = 0, d_damping = 1, d_loop_bw = 0, d_alpha = 0, d_beta = 0\<rparr>"
  using setters_reject_before_apply [of "- 1"
      "\<lparr>d_freq = 0, d_max_freq = 1, d_min_freq = - 1, d_phase = 0,
       d_constellation = \<lparr>dimensionality = 1, decision_maker_pe = (\<lambda>z. (0, 0))\<rparr>,
       d_current_const_point = 0, d_damping = 1, d_loop_bw = 0, d_alpha = 0, d_beta = 0\<rparr>" "3 / 2" "- 1 / 10" 2]
  by simp

subsection \<open>C9: the size of a batch\<close>

text \<open>
  C9: with \<open>available_in \<ge> 0\<close> input items and \<open>available_out \<ge> 0\<close> output slots, one call
  of \<^verbatim>\<open>general_work\<close> runs the loop body at the indices \<open>0, \<dots>, n - 1\<close> for
  \<open>n = min available_in available_out\<close>, once each and in order, reports \<open>n\<close> to
  \<^verbatim>\<open>consume_each\<close> and returns \<open>n\<close>. When either count is 0 it returns 0 and leaves the
  receiver and the buffers as they were.
\<close>

theorem general_work_batch_size:
  assumes "0 \<le> available_in" and "0 \<le> available_out"
  shows "returned (general_work available_out available_in inp n_out b s) = min available_in available_out \<and>
         consumed (general_work available_out available_in inp n_out b s) = min available_in available_out \<and>
         (receiver_after (general_work available_out available_in inp n_out b s),
          buffers_after (general_work available_out available_in inp n_out b s)) =
            foldl (\<lambda>sb k. work_body n_out inp (int k) sb) (s, b)
                  [0 ..< nat (min available_in available_out)] \<and>
         (available_in = 0 \<or> available_out = 0 \<longrightarrow>
            general_work available_out available_in inp n_out b s =
              \<lparr>returned = 0, consumed = 0, receiver_after = s, buffers_after = b\<rparr>)"
proof -
  have m: "max 0 (min available_out available_in) = min available_in available_out"
    using assms by simp
  show ?thesis
    using assms by (auto simp: general_work_foldl Let_def m min.commute)
qed

text \<open>Five input items and three output slots: three are processed.\<close>

theorem general_work_batch_size_witness:
  "(0::int) \<le> 5 \<and> (0::int) \<le> 3 \<and>
   returned (general_work 3 5 (\<lambda>i. 1) 1
      \<lparr>out = (\<lambda>i. 0), out_err = (\<lambda>i. 0), out_phase = (\<lambda>i. 0), out_freq = (\<lambda>i. 0)\<rparr>
      \<lparr>d_freq = 0, d_max_freq = 1, d_min_freq = - 1, d_phase = 0,
       d_constellation = \<lparr>dimensionality = 1, decision_maker_pe = (\<lambda>z. (0, 0))\<rparr>,
       d_current_const_point = 0, d_damping = 1, d_loop_bw = 0, d_alpha = 0, d_beta = 0\<rparr>) = 3 \<and>
   consumed (general_work 3 5 (\<lambda>i. 1) 1
      \<lparr>out = (\<lambda>i. 0), out_err = (\<lambda>i. 0), out_phase = (\<lambda>i. 0), out_freq = (\<lambda>i. 0)\<rparr>
      \<lparr>d_freq = 0, d_max_freq = 1, d_min_freq = - 1, d_phase = 0,
       d_constellation = \<lparr>dimensionality = 1, decision_maker_pe = (\<lambda>z. (0, 0))\<rparr>,
       d_current_const_point = 0, d_damping = 1, d_loop_bw = 0, d_alpha = 0, d_beta = 0\<rparr>) = 3 \<and>
   general_work 0 5 (\<lambda>i. 1) 1
      \<lparr>out = (\<lambda>i. 0), out_err = (\<lambda>i. 0), out_phase = (\<lambda>i. 0), out_freq = (\<lambda>i. 0)\<rparr>
      \<lparr>d_freq = 0, d_max_freq = 1, d_min_freq = - 1, d_phase = 0,
       d_constellation = \<lparr>dimensionality = 1, decision_maker_pe = (\<lambda>z. (0, 0))\<rparr>,
       d_current_const_point = 0, d_damping = 1, d_loop_bw = 0, d_alpha = 0, d_beta = 0\<rparr> =
     \<lparr>returned = 0, consumed = 0,
      receiver_after = \<lparr>d_freq = 0, d_max_freq = 1, d_min_freq = - 1, d_phase = 0,
       d_constellation = \<lparr>dimensionality = 1, decision_maker_pe = (\<lambda>z. (0, 0))\<rparr>,
       d_current_const_point = 0, d_damping = 1, d_loop_bw = 0, d_alpha = 0, d_beta = 0\<rparr>,
      buffers_after = \<lparr>out = (\<lambda>i. 0), out_err = (\<lambda>i. 0), out_phase = (\<lambda>i. 0), out_freq = (\<lambda>i. 0)\<rparr>\<rparr>"
  using general_work_batch_size [of 5 3 "\<lambda>i. 1" 1
      "\<lparr>out = (\<lambda>i. 0), out_err = (\<lambda>i. 0), out_phase = (\<lambda>i. 0), out_freq = (\<lambda>i. 0)\<rparr>"
      "\<lparr>d_freq = 0, d_max_freq = 1, d_min_freq = - 1, d_phase = 0,
       d_constellation = \<lparr>dimensionality = 1, decision_maker_pe = (\<lambda>z. (0, 0))\<rparr>,
       d_current_const_point = 0, d_damping = 1, d_loop_bw = 0, d_alpha = 0, d_beta = 0\<rparr>"]
    general_work_batch_size [of 5 0 "\<lambda>i. 1" 1
      "\<lparr>out = (\<lambda>i. 0), out_err = (\<lambda>i. 0), out_phase = (\<lambda>i. 0), out_freq = (\<lambda>i. 0)\<rparr>"
      "\<lparr>d_freq = 0, d_max_freq = 1, d_min_freq = - 1, d_phase = 0,
       d_constellation = \<lparr>dimensionality = 1, decision_maker_pe = (\<lambda>z. (0, 0))\<rparr>,
       d_current_const_point = 0, d_damping = 1, d_loop_bw = 0, d_alpha = 0, d_beta = 0\<rparr>"]
  by simp

subsection \<open>C10: construction with a negative bandwidth\<close>

text \<open>
  C10: constructing the receiver with a constellation of dimensionality 1 and a negative
  \<open>loop_bw\<close> fails with the out-of-range error, the one \<^verbatim>\<open>set_loop_bandwidth\<close> throws
  for that argument; it is not the runtime error of the dimensionality check, and no receiver
  results.
\<close>

theorem constructor_rejects_negative_bandwidth:
  assumes "dimensionality constell = 1" and "loop_bw < 0"
  shows "digital_constellation_receiver_cb constell loop_bw fmin fmax = Inl Out_of_range \<and>
         fst (set_loop_bandwidth loop_bw r) = Inl Out_of_range \<and>
         digital_constellation_receiver_cb constell loop_bw fmin fmax \<noteq> Inl Runtime_error \<and>
         (\<forall>r'. digital_constellation_receiver_cb constell loop_bw fmin fmax \<noteq> Inr r')"
  using assms by (simp add: digital_constellation_receiver_cb_def set_loop_bandwidth_def)

theorem constructor_rejects_negative_bandwidth_witness:
  "dimensionality \<lparr>dimensionality = 1, decision_maker_pe = (\<lambda>z. (0, 0))\<rparr> = 1 \<and> (- 1 :: real) < 0 \<and>
   digital_constellation_receiver_cb
     \<lparr>dimensionality = 1, decision_maker_pe = (\<lambda>z. (0, 0))\<rparr> (- 1) (- 1) 1 = Inl Out_of_range"
  using constructor_rejects_negative_bandwidth [of
     "\<lparr>dimensionality = 1, decision_maker_pe = (\<lambda>z. (0, 0))\<rparr>" "- 1" "- 1" 1]
  by simp

subsection \<open>C2 and C8: decided by single-precision arithmetic\<close>

text \<open>
  Two claims are not stated in this theory, because the real-number reading cannot carry
  what decides them.

  C2 (after \<^verbatim>\<open>set_phase\<close> and after every tracking step the stored phase lies in the
  half-open interval from \<open>-2 * pi\<close>, excluded, to \<open>2 * pi\<close>, included) is about the end
  points of the two wrapping loops. In exact arithmetic the loops, both with a strict
  comparison, keep a phase that is exactly \<open>-2 * pi\<close>. In the code the phase is a
  single-precision value and the bound is the double-precision constant \<^verbatim>\<open>2*M_PI\<close>, which
  no single-precision value equals, and the subtraction is rounded, which also decides whether
  the loops end. Which of the end points can be stored is a fact about single-precision values.

  C8 (for every bandwidth \<open>\<ge> 0\<close> and damping factor in \<open>[0, 1]\<close> the denominator of
  \<^verbatim>\<open>update_gains\<close> is at least 1 and both gains lie in \<open>[0, 4]\<close>) holds of the formulas
  in exact arithmetic; in the code the single-precision products overflow for a large
  bandwidth, and the gains are then infinite or not a number. What happens for every bandwidth
  is a fact about single-precision overflow. The range of the gains for a bandwidth up to
  \<open>2\<^sup>6\<^sup>2\<close> is the subject of C4 above.
\<close>

end
